theory Spec2Isabelle
  imports Complex_Main
begin

section \<open>The printer of pdfmake (src/printer.js)\<close>

text \<open>
  The functions of \<^verbatim>\<open>printer.js\<close> that resolve page margins, compute the height of
  an auto-height page, swap the page orientation between pages, resolve deferred
  page-number references and build the structure tree while a line is rendered.
  JavaScript numbers are idealised as reals (no rounding); where the source can meet
  \<^verbatim>\<open>undefined\<close>, or NaN after arithmetic on it, the value is an \<open>option\<close>. A \<^verbatim>\<open>throw\<close> and
  a TypeError raised by the runtime are the left summand of the result.
\<close>

datatype error =
    TypeError        \<comment> \<open>raised by the runtime (property of undefined or null, call of a non-function)\<close>
  | Throw string     \<comment> \<open>\<^verbatim>\<open>throw '...'\<close> of the source: the thrown value is a string\<close>

subsection \<open>Page margins\<close>

record margins =
  left_m :: real
  top_m :: real
  right_m :: real
  bottom_m :: real

text \<open>
  The values \<^verbatim>\<open>fixPageMargins\<close> tells apart: a number (\<^verbatim>\<open>isNumber\<close>), an array
  (\<^verbatim>\<open>isArray\<close>; its elements are numbers here), and a value that is neither, of which the
  model has the object with the four sides (the shape the function itself produces) and
  the string.
\<close>

datatype margin = MNumber real | MArray "real list" | MObject margins | MString string

definition fixPageMargins :: "margin \<Rightarrow> error + margin" where
  "fixPageMargins margin =
     (case margin of
        MNumber m \<Rightarrow> Inr (MObject \<lparr>left_m = m, top_m = m, right_m = m, bottom_m = m\<rparr>)
      | MArray a \<Rightarrow>
          (if length a = 2 then
             Inr (MObject \<lparr>left_m = a ! 0, top_m = a ! 1, right_m = a ! 0, bottom_m = a ! 1\<rparr>)
           else if length a = 4 then
             Inr (MObject \<lparr>left_m = a ! 0, top_m = a ! 1, right_m = a ! 2, bottom_m = a ! 3\<rparr>)
           else Inl (Throw ''Invalid pageMargins definition''))
      | MObject ob \<Rightarrow> Inr (MObject ob)
      | MString s \<Rightarrow> Inr (MString s))"

subsection \<open>Deferred page-number references\<close>

text \<open>\<^verbatim>\<open>Number.prototype.toString\<close> on an integer: its decimal digits.\<close>

definition digit :: "nat \<Rightarrow> char" where
  "digit d = ''0123456789'' ! d"

fun decimal :: "nat \<Rightarrow> string" where
  "decimal n = (if n < 10 then [digit n] else decimal (n div 10) @ [digit (n mod 10)])"

definition toString :: "int \<Rightarrow> string" where
  "toString i = (if i < 0 then CHR ''-'' # decimal (nat (- i)) else decimal (nat i))"

record position =
  pageNumber :: int

record pageNodeRef =
  positions :: "position list option"   \<comment> \<open>\<open>None\<close>: the referenced node was never rendered\<close>

record inline =
  inline_text :: string
  font :: string
  fontSize :: real
  characterSpacing :: "real option"
  fontFeatures :: "string list option"
  width :: real
  inline_x :: real
  alignment :: "string option"
  inline_pageNodeRef :: "pageNodeRef option"   \<comment> \<open>\<^verbatim>\<open>inline._pageNodeRef\<close>\<close>

text \<open>
  \<^verbatim>\<open>TextTools.widthOfString\<close> is not part of \<^verbatim>\<open>printer.js\<close>; the measuring function is
  the parameter \<open>widthOfString\<close>.
\<close>

type_synonym measure_fun =
  "string \<Rightarrow> string \<Rightarrow> real \<Rightarrow> real option \<Rightarrow> string list option \<Rightarrow> real"

definition preparePageNodeRefLine ::
    "measure_fun \<Rightarrow> pageNodeRef \<Rightarrow> inline \<Rightarrow> error + inline" where
  "preparePageNodeRefLine widthOfString ref inl =
     (case positions ref of
        None \<Rightarrow> Inl (Throw ''Page reference id not found'')
      | Some ps \<Rightarrow>
          (case ps of
             [] \<Rightarrow> Inl TypeError
           | p # _ \<Rightarrow>
               (let pageNumberText = toString (pageNumber p);
                    newWidth = widthOfString pageNumberText (font inl) (fontSize inl)
                                 (characterSpacing inl) (fontFeatures inl);
                    diffWidth = width inl - newWidth;
                    inl1 = inl\<lparr>inline_text := pageNumberText, width := newWidth\<rparr>
                in Inr (if alignment inl1 = Some ''right'' then
                          inl1\<lparr>inline_x := inline_x inl1 + diffWidth\<rparr>
                        else if alignment inl1 = Some ''center'' then
                          inl1\<lparr>inline_x := inline_x inl1 + diffWidth / 2\<rparr>
                        else inl1))))"

subsection \<open>The backend document and the structure tree\<close>

text \<open>
  A structure element is the object \<^verbatim>\<open>pdfKitDoc.struct(name)\<close> returns: \<open>ident\<close> tells two
  objects apart, \<open>data_S\<close> is \<^verbatim>\<open>dictionary.data.S\<close>, the name it was created with. A
  structure content is the object \<^verbatim>\<open>pdfKitDoc.markStructureContent(tag)\<close> returns.
\<close>

record selem =
  ident :: nat
  data_S :: string

record scontent =
  mcid :: nat
  content_tag :: string

datatype child = ChildElement selem | ChildContent scontent

text \<open>
  The calls into the backend that build the structure tree, in the order they are made.
  The drawing calls (text, fill, opacity, annotate) touch none of the state below and
  are not recorded.
\<close>

datatype call =
    AddStructure selem            \<comment> \<open>\<^verbatim>\<open>pdfKitDoc.addStructure(root)\<close>\<close>
  | Add selem child               \<comment> \<open>\<^verbatim>\<open>element.add(child)\<close>\<close>
  | MarkStructureContent string   \<comment> \<open>\<^verbatim>\<open>pdfKitDoc.markStructureContent(tag)\<close>\<close>
  | EndMarkedContent              \<comment> \<open>\<^verbatim>\<open>pdfKitDoc.endMarkedContent()\<close>\<close>
  | End selem                     \<comment> \<open>\<^verbatim>\<open>element.end()\<close>\<close>

text \<open>The four \<^verbatim>\<open>console.log('WARNING: ...')\<close> of \<^verbatim>\<open>renderLine\<close>, by kind.\<close>

datatype warning =
    NotAccessible string string   \<comment> \<open>parent and child fail the nesting tables\<close>
  | IgnoringClose string string   \<comment> \<open>the close tag and the name of the top it tried to close\<close>
  | TriedToPopRoot                \<comment> \<open>a onetime pop larger than the poppable depth\<close>
  | IgnoringObject                \<comment> \<open>a tag that is neither a string nor an object\<close>

record pdfKitDoc =
  options_size :: "real \<times> real"           \<comment> \<open>\<^verbatim>\<open>pdfKitDoc.options.size\<close>, width and height\<close>
  pages_added :: "(real \<times> real) list"     \<comment> \<open>the size at each \<^verbatim>\<open>addPage\<close>, in order\<close>
  stk :: "selem list option"               \<comment> \<open>\<^verbatim>\<open>pdfKitDoc.stk\<close>: undefined, or the stack, top last\<close>
  next_ident :: nat
  markings :: "scontent list"              \<comment> \<open>the open marked contents, innermost last\<close>
  calls :: "call list"
  console :: "warning list"

definition backend_call :: "call \<Rightarrow> pdfKitDoc \<Rightarrow> pdfKitDoc" where
  "backend_call c d = d\<lparr>calls := calls d @ [c]\<rparr>"

definition struct :: "string \<Rightarrow> pdfKitDoc \<Rightarrow> selem \<times> pdfKitDoc" where
  "struct name d =
     (\<lparr>ident = next_ident d, data_S = name\<rparr>, d\<lparr>next_ident := Suc (next_ident d)\<rparr>)"

definition markStructureContent :: "string \<Rightarrow> pdfKitDoc \<Rightarrow> scontent \<times> pdfKitDoc" where
  "markStructureContent tag d =
     (let sc = \<lparr>mcid = next_ident d, content_tag = tag\<rparr>
      in (sc, d\<lparr>next_ident := Suc (next_ident d), markings := markings d @ [sc],
                calls := calls d @ [MarkStructureContent tag]\<rparr>))"

definition endMarkedContent :: "pdfKitDoc \<Rightarrow> pdfKitDoc" where
  "endMarkedContent d = d\<lparr>markings := butlast (markings d), calls := calls d @ [EndMarkedContent]\<rparr>"

subsection \<open>Lines and their tags\<close>

text \<open>
  A tag of a line by its \<^verbatim>\<open>typeof\<close>: a string; an object, of which the engine reads the
  property \<^verbatim>\<open>onetime\<close> only (\<open>None\<close>: the object has none, as an array or \<^verbatim>\<open>{}\<close>; the
  property holds an integer here); \<^verbatim>\<open>null\<close>, whose \<^verbatim>\<open>typeof\<close> is \<^verbatim>\<open>'object'\<close> too; and
  \<^verbatim>\<open>undefined\<close>, a number and a boolean, which take the \<^verbatim>\<open>default\<close> branch.
\<close>

datatype tagitem =
    TString string
  | TObject "int option"
  | TNull
  | TUndefined
  | TNumber real
  | TBoolean bool

text \<open>
  \<open>startsNode_prop\<close> and \<open>endsNode_prop\<close> are the properties \<^verbatim>\<open>startsNode\<close> and
  \<^verbatim>\<open>endsNode\<close> of the line object: \<open>None\<close> when the line has no such property,
  \<open>Some b\<close> when it has it with the value \<open>b\<close>.
\<close>

record line =
  tags :: "tagitem list option"
  startsNode_prop :: "bool option"
  endsNode_prop :: "bool option"
  inlines :: "inline list"
  line_pageNodeRef :: "pageNodeRef option"    \<comment> \<open>\<^verbatim>\<open>line._pageNodeRef\<close>\<close>

text \<open>
  The state of one call of \<^verbatim>\<open>renderLine\<close>: the backend document and the local
  variables. \<open>popped\<close> is not in the source: it records what each
  \<^verbatim>\<open>pdfKitDoc.stk.pop()\<close> removed, in the order of the calls.
\<close>

record locals =
  doc :: pdfKitDoc
  lastOpenedStructTag :: "string option"
  lastOpenedStructElement :: "selem option"
  closingsFifo :: "selem option list"
  lifo :: "nat list"
  popped :: "selem option list"

definition initial_locals :: "pdfKitDoc \<Rightarrow> locals" where
  "initial_locals d =
     \<lparr>doc = d, lastOpenedStructTag = None, lastOpenedStructElement = None,
      closingsFifo = [], lifo = [], popped = []\<rparr>"

definition startsNode :: "line \<Rightarrow> bool" where
  "startsNode line = (startsNode_prop line \<noteq> None)"

definition endsNode :: "line \<Rightarrow> bool" where
  "endsNode line = (endsNode_prop line \<noteq> None)"

definition log_warning :: "warning \<Rightarrow> locals \<Rightarrow> locals" where
  "log_warning w ts = ts\<lparr>doc := (doc ts)\<lparr>console := console (doc ts) @ [w]\<rparr>\<rparr>"

text \<open>
  \<^verbatim>\<open>pdfKitDoc.stk.slice(-1)[0]\<close>: a TypeError while \<^verbatim>\<open>stk\<close> is undefined, \<^verbatim>\<open>undefined\<close>
  (\<open>None\<close>) on the empty stack, the last element otherwise.
\<close>

definition topElement :: "pdfKitDoc \<Rightarrow> error + selem option" where
  "topElement d =
     (case stk d of
        None \<Rightarrow> Inl TypeError
      | Some s \<Rightarrow> Inr (if s = [] then None else Some (last s)))"

text \<open>
  The nesting tables of the source. \<^verbatim>\<open>key in table\<close> also holds for the properties an
  object literal inherits from \<^verbatim>\<open>Object.prototype\<close>; the value found there has no
  \<^verbatim>\<open>includes\<close>, so calling it is a TypeError.
\<close>

definition good :: "(string \<times> string list) list" where
  "good = [(''Table'', [''TR'']), (''TR'', [''TD'', ''TH'']), (''L'', [''LI'']),
           (''LI'', [''Lbl'', ''LBody''])]"

definition bad :: "(string \<times> string list) list" where
  "bad = [(''H'', [''H'', ''TR'', ''TD'', ''TH'']),
          (''H1'', [''H'', ''H1'', ''TR'', ''TD'', ''TH'']),
          (''H2'', [''H'', ''H1'', ''H2'', ''TR'', ''TD'', ''TH'']),
          (''H3'', [''H'', ''H1'', ''H2'', ''H3'', ''TR'', ''TD'', ''TH'']),
          (''H4'', [''H'', ''H1'', ''H2'', ''H3'', ''H4'', ''TR'', ''TD'', ''TH'']),
          (''H5'', [''H'', ''H1'', ''H2'', ''H3'', ''H4'', ''H5'', ''TR'', ''TD'', ''TH'']),
          (''H6'', [''H'', ''H1'', ''H2'', ''H3'', ''H4'', ''H5'', ''H6'', ''TR'', ''TD'', ''TH''])]"

definition object_prototype_keys :: "string list" where
  "object_prototype_keys =
     [''constructor'', ''__defineGetter__'', ''__defineSetter__'', ''hasOwnProperty'',
      ''__lookupGetter__'', ''__lookupSetter__'', ''isPrototypeOf'', ''propertyIsEnumerable'',
      ''toString'', ''valueOf'', ''__proto__'', ''toLocaleString'']"

definition has_property :: "(string \<times> string list) list \<Rightarrow> string \<Rightarrow> bool" where
  "has_property table key = (key \<in> set (map fst table) \<or> key \<in> set object_prototype_keys)"

definition includes_at :: "(string \<times> string list) list \<Rightarrow> string \<Rightarrow> string \<Rightarrow> error + bool" where
  "includes_at table key v =
     (case map_of table key of
        Some vs \<Rightarrow> Inr (v \<in> set vs)
      | None \<Rightarrow> Inl TypeError)"

text \<open>
  The condition of the accessibility warning:
  \<^verbatim>\<open>(parentItem in good && !good[parentItem].includes(tagitem))
    || (parentItem in bad && bad[parentItem].includes(tagitem))\<close>.
\<close>

definition fails_accessibility :: "string \<Rightarrow> string \<Rightarrow> error + bool" where
  "fails_accessibility parentItem tagitem =
     (let in_bad = (if has_property bad parentItem then includes_at bad parentItem tagitem
                    else Inr False)
      in if has_property good parentItem then
           (case includes_at good parentItem tagitem of
              Inl e \<Rightarrow> Inl e
            | Inr included \<Rightarrow> if included then in_bad else Inr True)
         else in_bad)"

text \<open>The opening branch, after the syntax check: create, add to the top, push.\<close>

definition openTag :: "string \<Rightarrow> selem \<Rightarrow> locals \<Rightarrow> locals" where
  "openTag tagitem top_el ts =
     (let (el, d1) = struct tagitem (doc ts);
          d2 = backend_call (Add top_el (ChildElement el)) d1;
          d3 = d2\<lparr>stk := map_option (\<lambda>s. s @ [el]) (stk d2)\<rparr>
      in ts\<lparr>lastOpenedStructTag := Some tagitem, lastOpenedStructElement := Some el, doc := d3\<rparr>)"

text \<open>
  \<^verbatim>\<open>closingsFifo.push(topElement()); pdfKitDoc.stk.pop();\<close>, the two statements of the
  closing branch and of the body of the onetime loop.
\<close>

definition closeTop :: "locals \<Rightarrow> error + locals" where
  "closeTop ts =
     (case topElement (doc ts) of
        Inl e \<Rightarrow> Inl e
      | Inr t \<Rightarrow>
          Inr (ts\<lparr>closingsFifo := closingsFifo ts @ [t], popped := popped ts @ [t],
                  doc := (doc ts)\<lparr>stk := map_option butlast (stk (doc ts))\<rparr>\<rparr>))"

text \<open>\<^verbatim>\<open>for (var j = 0; j < pops; j++) { ... }\<close>\<close>

function popLoop :: "int \<Rightarrow> int \<Rightarrow> locals \<Rightarrow> error + locals" where
  "popLoop j pops ts =
     (if j < pops then
        (case closeTop ts of
           Inl e \<Rightarrow> Inl e
         | Inr ts' \<Rightarrow> popLoop (j + 1) pops ts')
      else Inr ts)"
  by pat_completeness auto
termination
  by (relation "measure (\<lambda>(j, pops, ts). nat (pops - j))") auto

text \<open>\<^verbatim>\<open>case 'string'\<close>\<close>

definition processString :: "line \<Rightarrow> string \<Rightarrow> locals \<Rightarrow> error + locals" where
  "processString line tagitem ts =
     (case topElement (doc ts) of
        Inl e \<Rightarrow> Inl e
      | Inr None \<Rightarrow> Inl TypeError
      | Inr (Some top_el) \<Rightarrow>
          (let parentItem = data_S top_el in
           if tagitem = [] then Inr ts
           else if hd tagitem \<noteq> CHR ''/'' \<and> startsNode line then
             (case fails_accessibility parentItem tagitem of
                Inl e \<Rightarrow> Inl e
              | Inr fails \<Rightarrow>
                  Inr (openTag tagitem top_el
                         (if fails then log_warning (NotAccessible parentItem tagitem) ts else ts)))
           else if hd tagitem = CHR ''/'' \<and> endsNode line then
             (if parentItem = tl tagitem then closeTop ts
              else Inr (log_warning (IgnoringClose tagitem parentItem) ts))
           else Inr ts))"

text \<open>\<^verbatim>\<open>case 'object'\<close>, for an object; \<open>itag\<close> is the index of the tag in the list.\<close>

definition processObject :: "line \<Rightarrow> nat \<Rightarrow> int option \<Rightarrow> locals \<Rightarrow> error + locals" where
  "processObject line itag onetime ts =
     (if endsNode line then
        (case stk (doc ts) of
           None \<Rightarrow> Inl TypeError
         | Some s \<Rightarrow>
             (let pops = (case onetime of None \<Rightarrow> 0 | Some n \<Rightarrow> if n = 0 then 0 else n);
                  poppable = int (length s) - 1;
                  ts1 = ts\<lparr>lifo := itag # lifo ts\<rparr>
              in if pops > poppable then popLoop 0 poppable (log_warning TriedToPopRoot ts1)
                 else popLoop 0 pops ts1))
      else Inr ts)"

text \<open>The body of the loop over the tags: \<^verbatim>\<open>switch (typeof tagitem)\<close>.\<close>

definition processTag :: "line \<Rightarrow> nat \<Rightarrow> tagitem \<Rightarrow> locals \<Rightarrow> error + locals" where
  "processTag line itag tagitem ts =
     (case tagitem of
        TString s \<Rightarrow> processString line s ts
      | TObject onetime \<Rightarrow> processObject line itag onetime ts
      | TNull \<Rightarrow> if endsNode line then Inl TypeError else Inr ts
      | TUndefined \<Rightarrow> Inl TypeError
      | TNumber n \<Rightarrow> Inr (log_warning IgnoringObject ts)
      | TBoolean b \<Rightarrow> Inr (log_warning IgnoringObject ts))"

fun tagLoop :: "line \<Rightarrow> tagitem list \<Rightarrow> nat \<Rightarrow> locals \<Rightarrow> error + locals" where
  "tagLoop line [] itag ts = Inr ts"
| "tagLoop line (tagitem # rest) itag ts =
     (case processTag line itag tagitem ts of
        Inl e \<Rightarrow> Inl e
      | Inr ts' \<Rightarrow> tagLoop line rest (Suc itag) ts')"

text \<open>The lazily created root: \<^verbatim>\<open>if (!pdfKitDoc.stk) { ... }\<close>\<close>

definition createRoot :: "pdfKitDoc \<Rightarrow> pdfKitDoc" where
  "createRoot d =
     (case stk d of
        Some s \<Rightarrow> d
      | None \<Rightarrow>
          (let (root_el, d1) = struct ''Document'' d
           in (backend_call (AddStructure root_el) d1)\<lparr>stk := Some [root_el]\<rparr>))"

text \<open>
  \<^verbatim>\<open>lifo.map((k) => { line.tags.splice(k, 1); })\<close>: the indices of the onetime tags,
  the last one first, each removed from the list.
\<close>

definition removeOnetime :: "nat list \<Rightarrow> tagitem list \<Rightarrow> tagitem list" where
  "removeOnetime ks tg = fold (\<lambda>k t. take k t @ drop (Suc k) t) ks tg"

text \<open>The block \<^verbatim>\<open>if (line.tags && line.tags.length > 0 && (startsNode() || endsNode()))\<close>.\<close>

definition processTags :: "line \<Rightarrow> pdfKitDoc \<Rightarrow> error + (line \<times> locals)" where
  "processTags line d =
     (case tags line of
        None \<Rightarrow> Inr (line, initial_locals d)
      | Some tg \<Rightarrow>
          if tg \<noteq> [] \<and> (startsNode line \<or> endsNode line) then
            (case tagLoop line tg 0 (initial_locals (createRoot d)) of
               Inl e \<Rightarrow> Inl e
             | Inr ts \<Rightarrow> Inr (line\<lparr>tags := Some (removeOnetime (lifo ts) tg)\<rparr>, ts))
          else Inr (line, initial_locals d))"

subsection \<open>Rendering a line\<close>

text \<open>\<^verbatim>\<open>if (line._pageNodeRef) { preparePageNodeRefLine(line._pageNodeRef, line.inlines[0]); }\<close>\<close>

definition prepareLineRef :: "measure_fun \<Rightarrow> line \<Rightarrow> error + line" where
  "prepareLineRef widthOfString line =
     (case line_pageNodeRef line of
        None \<Rightarrow> Inr line
      | Some ref \<Rightarrow>
          (case inlines line of
             [] \<Rightarrow>
               (case positions ref of
                  None \<Rightarrow> Inl (Throw ''Page reference id not found'')
                | Some ps \<Rightarrow> Inl TypeError)
           | inl # rest \<Rightarrow>
               (case preparePageNodeRefLine widthOfString ref inl of
                  Inl e \<Rightarrow> Inl e
                | Inr inl' \<Rightarrow> Inr (line\<lparr>inlines := inl' # rest\<rparr>))))"

text \<open>The loop over the inlines, without the drawing.\<close>

fun prepareInlines :: "measure_fun \<Rightarrow> inline list \<Rightarrow> error + inline list" where
  "prepareInlines widthOfString [] = Inr []"
| "prepareInlines widthOfString (inl # rest) =
     (case (case inline_pageNodeRef inl of
              None \<Rightarrow> Inr inl
            | Some ref \<Rightarrow> preparePageNodeRefLine widthOfString ref inl) of
        Inl e \<Rightarrow> Inl e
      | Inr inl' \<Rightarrow>
          (case prepareInlines widthOfString rest of
             Inl e \<Rightarrow> Inl e
           | Inr rest' \<Rightarrow> Inr (inl' # rest')))"

text \<open>\<^verbatim>\<open>while (closingsFifo.length > 0) { closingsFifo.shift().end(); }\<close>\<close>

fun endAll :: "selem option list \<Rightarrow> pdfKitDoc \<Rightarrow> error + pdfKitDoc" where
  "endAll [] d = Inr d"
| "endAll (None # fifo) d = Inl TypeError"
| "endAll (Some el # fifo) d = endAll fifo (backend_call (End el) d)"

text \<open>
  \<^verbatim>\<open>if ('startsNode' in line) { if (lastOpenedStructTag) { structContent = ... } }\<close>: the
  marked content the line opens, if any, and the document after it.
\<close>

definition openContent :: "line \<Rightarrow> locals \<Rightarrow> scontent option \<times> pdfKitDoc" where
  "openContent line ts =
     (if startsNode line then
        (case lastOpenedStructTag ts of
           None \<Rightarrow> (None, doc ts)
         | Some tag \<Rightarrow>
             if tag = [] then (None, doc ts)
             else (let (sc, d') = markStructureContent tag (doc ts) in (Some sc, d')))
      else (None, doc ts))"

text \<open>
  The end of \<^verbatim>\<open>renderLine\<close> on a line with \<^verbatim>\<open>endsNode\<close>: \<open>structContent\<close> falls back
  to the content of the last open marking and \<open>lastOpenedStructElement\<close> to
  \<^verbatim>\<open>closingsFifo[0]\<close>; the content is attached and the marked content ended; then
  every element of the FIFO is ended.
\<close>

definition closeNode :: "locals \<Rightarrow> scontent option \<Rightarrow> pdfKitDoc \<Rightarrow> error + pdfKitDoc" where
  "closeNode ts structContent d1 =
     (let structContent' =
            (case structContent of
               Some sc \<Rightarrow> Some sc
             | None \<Rightarrow> if markings d1 = [] then None else Some (last (markings d1)));
          lastOpened =
            (case lastOpenedStructElement ts of
               Some el \<Rightarrow> Some el
             | None \<Rightarrow> (case closingsFifo ts of [] \<Rightarrow> None | first # _ \<Rightarrow> first));
          d2 = (case structContent' of
                  None \<Rightarrow> d1
                | Some sc \<Rightarrow>
                    (case lastOpened of
                       Some el \<Rightarrow> endMarkedContent (backend_call (Add el (ChildContent sc)) d1)
                     | None \<Rightarrow> endMarkedContent d1))
      in endAll (closingsFifo ts) d2)"

definition renderLine :: "measure_fun \<Rightarrow> line \<Rightarrow> pdfKitDoc \<Rightarrow> error + (line \<times> pdfKitDoc)" where
  "renderLine widthOfString line d =
     (case prepareLineRef widthOfString line of
        Inl e \<Rightarrow> Inl e
      | Inr line1 \<Rightarrow>
     (case processTags line1 d of
        Inl e \<Rightarrow> Inl e
      | Inr (line2, ts) \<Rightarrow>
     (let (structContent, d1) = openContent line2 ts
      in
     (case prepareInlines widthOfString (inlines line2) of
        Inl e \<Rightarrow> Inl e
      | Inr inls \<Rightarrow>
     (let line3 = line2\<lparr>inlines := inls\<rparr>
      in if endsNode line3 then
           (case closeNode ts structContent d1 of
              Inl e \<Rightarrow> Inl e
            | Inr d3 \<Rightarrow> Inr (line3, d3))
         else Inr (line3, d1))))))"

subsection \<open>Pages, items and the height of an auto-height page\<close>

text \<open>
  An item of a page, \<^verbatim>\<open>{type, item}\<close>, with what the printer reads of \<^verbatim>\<open>item.item\<close>:
  \<open>getHeight = Some h\<close> when \<^verbatim>\<open>item.item.getHeight\<close> is a function, which returns \<open>h\<close>;
  \<open>u_height\<close> is \<^verbatim>\<open>item.item._height\<close>; \<open>item_line\<close> is \<^verbatim>\<open>item.item\<close> as a line, for
  the renderer. A number that is \<^verbatim>\<open>undefined\<close> or, after arithmetic on it, NaN is \<open>None\<close>.
\<close>

record item =
  item_type :: string
  item_y :: "real option"
  getHeight :: "real option"
  u_height :: "real option"
  item_y1 :: "real option"
  item_y2 :: "real option"
  item_line :: "line option"

record page =
  items :: "item list"
  orientation :: string     \<comment> \<open>\<^verbatim>\<open>page.pageSize.orientation\<close>\<close>

definition getItemHeight :: "item \<Rightarrow> real option" where
  "getItemHeight it =
     (case getHeight it of
        Some h \<Rightarrow> Some h
      | None \<Rightarrow>
          if u_height it \<noteq> None \<and> u_height it \<noteq> Some 0 then u_height it
          else if item_type it = ''vector'' then
            (case (item_y1 it, item_y2 it) of
               (Some a, Some b) \<Rightarrow> if a > b then Some a else Some b
             | _ \<Rightarrow> item_y2 it)
          else Some 0)"

definition getBottomPosition :: "item \<Rightarrow> real option" where
  "getBottomPosition it =
     (let top = (case item_y it of None \<Rightarrow> 0 | Some t \<Rightarrow> t)
      in case getItemHeight it of
           None \<Rightarrow> None
         | Some height \<Rightarrow> Some (top + height))"

text \<open>The body of the inner \<^verbatim>\<open>forEach\<close>: a comparison with NaN is false.\<close>

definition scanItem :: "item \<Rightarrow> real \<Rightarrow> real" where
  "scanItem it height =
     (case getBottomPosition it of
        None \<Rightarrow> height
      | Some bottomPosition \<Rightarrow> if bottomPosition > height then bottomPosition else height)"

text \<open>
  \<^verbatim>\<open>margins || 40\<close>: of the margin values of the model the number 0 and the empty string
  are falsy. Fixed margins that are a string have no \<^verbatim>\<open>top\<close> and no \<^verbatim>\<open>bottom\<close>: the height
  starts as \<^verbatim>\<open>undefined\<close>, no comparison with it holds, and the sum at the end is NaN,
  the result \<open>None\<close>.
\<close>

definition calculatePageHeight :: "page list \<Rightarrow> margin \<Rightarrow> error + real option" where
  "calculatePageHeight pages margins =
     (case fixPageMargins
             (if margins = MNumber 0 \<or> margins = MString [] then MNumber 40 else margins) of
        Inl e \<Rightarrow> Inl e
      | Inr (MObject fixedMargins) \<Rightarrow>
          Inr (Some
            (fold (\<lambda>page height. fold scanItem (items page) height) pages (top_m fixedMargins)
             + bottom_m fixedMargins))
      | Inr other \<Rightarrow> Inr None)"

subsection \<open>Rendering the pages\<close>

definition updatePageOrientationInOptions :: "page \<Rightarrow> pdfKitDoc \<Rightarrow> pdfKitDoc" where
  "updatePageOrientationInOptions currentPage d =
     (let previousPageOrientation =
            (if fst (options_size d) > snd (options_size d) then ''landscape'' else ''portrait'')
      in if orientation currentPage = previousPageOrientation then d
         else d\<lparr>options_size := (snd (options_size d), fst (options_size d))\<rparr>)"

text \<open>\<^verbatim>\<open>pdfKitDoc.addPage()\<close> and \<^verbatim>\<open>pdfKitDoc.addPage(pdfKitDoc.options)\<close>: a page of the current size.\<close>

definition addPage :: "pdfKitDoc \<Rightarrow> pdfKitDoc" where
  "addPage d = d\<lparr>pages_added := pages_added d @ [options_size d]\<rparr>"

text \<open>
  The \<^verbatim>\<open>switch (item.type)\<close> of \<^verbatim>\<open>renderPages\<close>: a line goes to \<^verbatim>\<open>renderLine\<close>; the other
  kinds only draw.
\<close>

definition renderItem :: "measure_fun \<Rightarrow> item \<Rightarrow> pdfKitDoc \<Rightarrow> error + pdfKitDoc" where
  "renderItem widthOfString it d =
     (if item_type it = ''line'' then
        (case item_line it of
           None \<Rightarrow> Inl TypeError
         | Some line \<Rightarrow>
             (case renderLine widthOfString line d of
                Inl e \<Rightarrow> Inl e
              | Inr (line', d') \<Rightarrow> Inr d'))
      else Inr d)"

fun renderItems :: "measure_fun \<Rightarrow> item list \<Rightarrow> pdfKitDoc \<Rightarrow> error + pdfKitDoc" where
  "renderItems widthOfString [] d = Inr d"
| "renderItems widthOfString (it # rest) d =
     (case renderItem widthOfString it d of
        Inl e \<Rightarrow> Inl e
      | Inr d' \<Rightarrow> renderItems widthOfString rest d')"

text \<open>The loop \<^verbatim>\<open>for (var i = 0; i < pages.length; i++)\<close>, from the page of index \<open>i\<close> on.\<close>

fun renderPagesFrom :: "measure_fun \<Rightarrow> nat \<Rightarrow> page list \<Rightarrow> pdfKitDoc \<Rightarrow> error + pdfKitDoc" where
  "renderPagesFrom widthOfString i [] d = Inr d"
| "renderPagesFrom widthOfString i (page # rest) d =
     (case renderItems widthOfString (items page)
             (if 0 < i then addPage (updatePageOrientationInOptions page d) else d) of
        Inl e \<Rightarrow> Inl e
      | Inr d' \<Rightarrow> renderPagesFrom widthOfString (Suc i) rest d')"

definition renderPages :: "measure_fun \<Rightarrow> page list \<Rightarrow> pdfKitDoc \<Rightarrow> error + pdfKitDoc" where
  "renderPages widthOfString pages d = renderPagesFrom widthOfString 0 pages (addPage d)"

subsection \<open>Notions used to state the properties\<close>

text \<open>The elements whose \<^verbatim>\<open>end()\<close> was called, in the order of the calls.\<close>

fun ended :: "call list \<Rightarrow> selem list" where
  "ended [] = []"
| "ended (End el # cs) = el # ended cs"
| "ended (c # cs) = ended cs"

text \<open>
  What the tag loop keeps: the FIFO holds what was popped, in the order of the pops,
  and \<^verbatim>\<open>undefined\<close> was never popped.
\<close>

definition fifo_ok :: "locals \<Rightarrow> bool" where
  "fifo_ok ts = (closingsFifo ts = popped ts \<and> None \<notin> set (popped ts))"

text \<open>
  What the structure-tag engine leaves alone in the document: the page size, the pages
  added, and the elements ended so far.
\<close>

definition kept :: "pdfKitDoc \<Rightarrow> pdfKitDoc \<Rightarrow> bool" where
  "kept d d' = (options_size d' = options_size d \<and> pages_added d' = pages_added d
     \<and> ended (calls d') = ended (calls d))"

text \<open>The orientation \<^verbatim>\<open>updatePageOrientationInOptions\<close> reads off a size.\<close>

definition orientation_of :: "real \<times> real \<Rightarrow> string" where
  "orientation_of sz = (if fst sz > snd sz then ''landscape'' else ''portrait'')"

text \<open>The size after \<^verbatim>\<open>updatePageOrientationInOptions\<close> for the page \<open>p\<close> on the size \<open>prev\<close>.\<close>

definition oriented :: "page \<Rightarrow> real \<times> real \<Rightarrow> real \<times> real" where
  "oriented p prev = (if orientation p = orientation_of prev then prev else (snd prev, fst prev))"

text \<open>The bottom positions of all items of all pages that are numbers, in order.\<close>

definition bottoms :: "page list \<Rightarrow> real list" where
  "bottoms pages = concat (map (\<lambda>page. List.map_filter getBottomPosition (items page)) pages)"

section \<open>Properties\<close>

subsection \<open>Margins\<close>

text \<open>
  C9 (as amended). A number \<open>m\<close> becomes the margins with \<open>m\<close> on all four sides, a
  two-element array \<open>[h, v]\<close> becomes left \<open>h\<close>, top \<open>v\<close>, right \<open>h\<close>, bottom \<open>v\<close>, a
  four-element array \<open>[l, t, r, b]\<close> becomes left \<open>l\<close>, top \<open>t\<close>, right \<open>r\<close>, bottom \<open>b\<close>;
  an array of any other length makes \<^verbatim>\<open>fixPageMargins\<close> throw the string
  \<^verbatim>\<open>'Invalid pageMargins definition'\<close>; a value that is neither a number nor an array
  (an object with the four sides, a string) is returned as it is, without an error.
\<close>

theorem fixPageMargins_shapes:
  "fixPageMargins (MNumber m) =
     Inr (MObject \<lparr>left_m = m, top_m = m, right_m = m, bottom_m = m\<rparr>)
   \<and> fixPageMargins (MArray [h, v]) =
     Inr (MObject \<lparr>left_m = h, top_m = v, right_m = h, bottom_m = v\<rparr>)
   \<and> fixPageMargins (MArray [l, t, r, b]) =
     Inr (MObject \<lparr>left_m = l, top_m = t, right_m = r, bottom_m = b\<rparr>)
   \<and> (length a \<noteq> 2 \<and> length a \<noteq> 4 \<longrightarrow>
        fixPageMargins (MArray a) = Inl (Throw ''Invalid pageMargins definition''))
   \<and> fixPageMargins (MObject ob) = Inr (MObject ob)
   \<and> fixPageMargins (MString s) = Inr (MString s)"
  by (simp add: fixPageMargins_def)

theorem fixPageMargins_shapes_witness:
  "fixPageMargins (MNumber 40) =
     Inr (MObject \<lparr>left_m = 40, top_m = 40, right_m = 40, bottom_m = 40\<rparr>)
   \<and> fixPageMargins (MArray [10, 20]) =
     Inr (MObject \<lparr>left_m = 10, top_m = 20, right_m = 10, bottom_m = 20\<rparr>)
   \<and> fixPageMargins (MArray [1, 2, 3, 4]) =
     Inr (MObject \<lparr>left_m = 1, top_m = 2, right_m = 3, bottom_m = 4\<rparr>)
   \<and> length [1, 2, 3 :: real] \<noteq> 2 \<and> length [1, 2, 3 :: real] \<noteq> 4
   \<and> fixPageMargins (MArray [1, 2, 3]) = Inl (Throw ''Invalid pageMargins definition'')
   \<and> fixPageMargins (MObject \<lparr>left_m = 1, top_m = 2, right_m = 3, bottom_m = 4\<rparr>) =
     Inr (MObject \<lparr>left_m = 1, top_m = 2, right_m = 3, bottom_m = 4\<rparr>)
   \<and> fixPageMargins (MString ''40'') = Inr (MString ''40'')"
  using fixPageMargins_shapes [of 40 10 20 1 2 3 4 "[1, 2, 3]"
      "\<lparr>left_m = 1, top_m = 2, right_m = 3, bottom_m = 4\<rparr>" "''40''"]
  by simp

text \<open>
  C9 as the specification states it fails: a margin value of another shape than a
  number, a pair or a quadruple, here the string \<^verbatim>\<open>'40'\<close> and the object with the four
  sides, does not make \<^verbatim>\<open>fixPageMargins\<close> fail.
\<close>

theorem fixPageMargins_other_shape_counterexample:
  "\<not> (\<exists>e. fixPageMargins (MString ''40'') = Inl e)
   \<and> \<not> (\<exists>e. fixPageMargins (MObject \<lparr>left_m = 1, top_m = 2, right_m = 3, bottom_m = 4\<rparr>) = Inl e)"
  by (simp add: fixPageMargins_def)

subsection \<open>Deferred page-number references\<close>

text \<open>
  C6. When the reference is resolved (its positions exist and are not empty), the
  inline's text becomes the page number, its width the width \<open>newWidth\<close> measured with
  the inline's own font, size, character spacing and font features, and with
  \<open>d = oldWidth - newWidth\<close> its x grows by \<open>d\<close> for the alignment \<^verbatim>\<open>'right'\<close>, by \<open>d / 2\<close>
  for \<^verbatim>\<open>'center'\<close>, and stays for every other alignment (left, none).
\<close>

theorem preparePageNodeRefLine_x:
  assumes "positions ref = Some (p # ps)"
  shows "\<exists>inl'. preparePageNodeRefLine widthOfString ref inl = Inr inl'
     \<and> inline_text inl' = toString (pageNumber p)
     \<and> width inl' = widthOfString (toString (pageNumber p)) (font inl) (fontSize inl)
                       (characterSpacing inl) (fontFeatures inl)
     \<and> inline_x inl' =
         inline_x inl +
           (if alignment inl = Some ''right'' then width inl - width inl'
            else if alignment inl = Some ''center'' then (width inl - width inl') / 2
            else 0)"
  using assms by (simp add: preparePageNodeRefLine_def Let_def)

theorem preparePageNodeRefLine_x_witness:
  "(\<exists>inl'. preparePageNodeRefLine (\<lambda>t f s c ff. 30) \<lparr>positions = Some [\<lparr>pageNumber = 7\<rparr>]\<rparr>
       \<lparr>inline_text = ''00'', font = ''Roboto'', fontSize = 12, characterSpacing = None,
        fontFeatures = None, width = 50, inline_x = 100, alignment = Some ''right'',
        inline_pageNodeRef = None\<rparr> = Inr inl' \<and> inline_text inl' = ''7'' \<and> width inl' = 30 \<and> inline_x inl' = 120)
   \<and> (\<exists>inl'. preparePageNodeRefLine (\<lambda>t f s c ff. 30) \<lparr>positions = Some [\<lparr>pageNumber = 7\<rparr>]\<rparr>
       \<lparr>inline_text = ''00'', font = ''Roboto'', fontSize = 12, characterSpacing = None,
        fontFeatures = None, width = 50, inline_x = 100, alignment = Some ''center'',
        inline_pageNodeRef = None\<rparr> = Inr inl' \<and> inline_text inl' = ''7'' \<and> width inl' = 30 \<and> inline_x inl' = 110)
   \<and> (\<exists>inl'. preparePageNodeRefLine (\<lambda>t f s c ff. 30) \<lparr>positions = Some [\<lparr>pageNumber = 7\<rparr>]\<rparr>
       \<lparr>inline_text = ''00'', font = ''Roboto'', fontSize = 12, characterSpacing = None,
        fontFeatures = None, width = 50, inline_x = 100, alignment = Some ''left'',
        inline_pageNodeRef = None\<rparr> = Inr inl' \<and> inline_text inl' = ''7'' \<and> width inl' = 30 \<and> inline_x inl' = 100)"
  using preparePageNodeRefLine_x [of "\<lparr>positions = Some [\<lparr>pageNumber = 7\<rparr>]\<rparr>" "\<lparr>pageNumber = 7\<rparr>" "[]"
      "\<lambda>t f s c ff. 30"
      "\<lparr>inline_text = ''00'', font = ''Roboto'', fontSize = 12, characterSpacing = None,
        fontFeatures = None, width = 50, inline_x = 100, alignment = Some ''right'',
        inline_pageNodeRef = None\<rparr>"]
    preparePageNodeRefLine_x [of "\<lparr>positions = Some [\<lparr>pageNumber = 7\<rparr>]\<rparr>" "\<lparr>pageNumber = 7\<rparr>" "[]"
      "\<lambda>t f s c ff. 30"
      "\<lparr>inline_text = ''00'', font = ''Roboto'', fontSize = 12, characterSpacing = None,
        fontFeatures = None, width = 50, inline_x = 100, alignment = Some ''center'',
        inline_pageNodeRef = None\<rparr>"]
    preparePageNodeRefLine_x [of "\<lparr>positions = Some [\<lparr>pageNumber = 7\<rparr>]\<rparr>" "\<lparr>pageNumber = 7\<rparr>" "[]"
      "\<lambda>t f s c ff. 30"
      "\<lparr>inline_text = ''00'', font = ''Roboto'', fontSize = 12, characterSpacing = None,
        fontFeatures = None, width = 50, inline_x = 100, alignment = Some ''left'',
        inline_pageNodeRef = None\<rparr>"]
  by (auto simp add: toString_def digit_def)

subsection \<open>The structure-tag engine: one tag\<close>

lemmas engine_defs = renderLine_def openContent_def closeNode_def prepareLineRef_def processTags_def initial_locals_def
  createRoot_def struct_def backend_call_def processTag_def processString_def processObject_def
  topElement_def closeTop_def startsNode_def endsNode_def log_warning_def openTag_def
  fails_accessibility_def has_property_def includes_at_def good_def bad_def
  object_prototype_keys_def markStructureContent_def endMarkedContent_def removeOnetime_def Let_def

declare popLoop.simps [simp del]

lemma popLoop_none: "pops \<le> j \<Longrightarrow> popLoop j pops ts = Inr ts"
  by (simp add: popLoop.simps [of j pops ts])

text \<open>
  The onetime loop on a stack \<open>base @ rev ps\<close> with as many rounds as \<open>ps\<close> is long: it
  moves \<open>ps\<close>, the top first, to the end of the FIFO and leaves \<open>base\<close>.
\<close>

lemma popLoop_rev:
  "stk (doc ts) = Some (base @ rev ps) \<Longrightarrow> int (length ps) = pops - j \<Longrightarrow>
   popLoop j pops ts =
     Inr (ts\<lparr>closingsFifo := closingsFifo ts @ map Some ps, popped := popped ts @ map Some ps,
             doc := (doc ts)\<lparr>stk := Some base\<rparr>\<rparr>)"
proof (induction ps arbitrary: j ts)
  case Nil
  then have "(doc ts)\<lparr>stk := Some base\<rparr> = doc ts" by simp
  then have "ts\<lparr>closingsFifo := closingsFifo ts @ map Some [], popped := popped ts @ map Some [],
             doc := (doc ts)\<lparr>stk := Some base\<rparr>\<rparr> = ts" by simp
  moreover from Nil have "popLoop j pops ts = Inr ts" by (intro popLoop_none) simp
  ultimately show ?case by simp
next
  case (Cons p ps)
  let ?ts1 = "ts\<lparr>closingsFifo := closingsFifo ts @ [Some p], popped := popped ts @ [Some p],
                 doc := (doc ts)\<lparr>stk := Some (base @ rev ps)\<rparr>\<rparr>"
  from Cons.prems have lt: "j < pops" by simp
  from Cons.prems have ct: "closeTop ts = Inr ?ts1"
    by (simp add: closeTop_def topElement_def butlast_append)
  have "popLoop (j + 1) pops ?ts1 =
    Inr (?ts1\<lparr>closingsFifo := closingsFifo ?ts1 @ map Some ps, popped := popped ?ts1 @ map Some ps,
             doc := (doc ?ts1)\<lparr>stk := Some base\<rparr>\<rparr>)"
    using Cons.prems by (intro Cons.IH) simp_all
  with lt ct show ?case by (simp add: popLoop.simps [of j pops ts])
qed

text \<open>
  C2. On a line with \<^verbatim>\<open>endsNode\<close> and a stack \<open>s\<close> that is not empty, the tag
  \<^verbatim>\<open>{onetime: n}\<close> with a count \<open>n \<ge> 0\<close>: if \<open>n \<le> length s - 1\<close>, the \<open>n\<close> elements on top
  of the stack are popped and appended to the FIFO, the top first, the rest of the stack
  (its first \<open>length s - n\<close> elements, the root among them) stays, and nothing is logged;
  if \<open>n > length s - 1\<close>, all elements but the bottom one are popped and appended to the
  FIFO, and the warning is logged once.
\<close>

theorem onetime_pop:
  assumes "endsNode line" and "stk (doc ts) = Some s" and "s \<noteq> []" and "0 \<le> n"
  shows "\<exists>ts'. processTag line itag (TObject (Some n)) ts = Inr ts'
     \<and> (if n \<le> int (length s) - 1 then
          stk (doc ts') = Some (take (length s - nat n) s)
          \<and> closingsFifo ts' = closingsFifo ts @ map Some (rev (drop (length s - nat n) s))
          \<and> popped ts' = popped ts @ map Some (rev (drop (length s - nat n) s))
          \<and> length (drop (length s - nat n) s) = nat n
          \<and> console (doc ts') = console (doc ts)
        else
          stk (doc ts') = Some [hd s]
          \<and> closingsFifo ts' = closingsFifo ts @ map Some (rev (tl s))
          \<and> popped ts' = popped ts @ map Some (rev (tl s))
          \<and> console (doc ts') = console (doc ts) @ [TriedToPopRoot])"
proof (cases "n \<le> int (length s) - 1")
  case True
  let ?ts1 = "ts\<lparr>lifo := itag # lifo ts\<rparr>"
  let ?k = "length s - nat n"
  have "stk (doc ?ts1) = Some (take ?k s @ rev (rev (drop ?k s)))"
    using assms by simp
  moreover have "int (length (rev (drop ?k s))) = n - 0"
    using assms True by simp
  ultimately have "popLoop 0 n ?ts1 =
      Inr (?ts1\<lparr>closingsFifo := closingsFifo ?ts1 @ map Some (rev (drop ?k s)),
                popped := popped ?ts1 @ map Some (rev (drop ?k s)),
                doc := (doc ?ts1)\<lparr>stk := Some (take ?k s)\<rparr>\<rparr>)"
    by (rule popLoop_rev)
  with assms True show ?thesis
    by (simp add: processTag_def processObject_def)
next
  case False
  let ?ts1 = "log_warning TriedToPopRoot (ts\<lparr>lifo := itag # lifo ts\<rparr>)"
  from assms obtain r rest where s: "s = r # rest" by (cases s) auto
  have "stk (doc ?ts1) = Some ([r] @ rev (rev rest))"
    using assms s by (simp add: log_warning_def)
  moreover have "int (length (rev rest)) = (int (length s) - 1) - 0"
    using s by simp
  ultimately have "popLoop 0 (int (length s) - 1) ?ts1 =
      Inr (?ts1\<lparr>closingsFifo := closingsFifo ?ts1 @ map Some (rev rest),
                popped := popped ?ts1 @ map Some (rev rest),
                doc := (doc ?ts1)\<lparr>stk := Some [r]\<rparr>\<rparr>)"
    by (rule popLoop_rev)
  with assms False s show ?thesis
    by (simp add: processTag_def processObject_def log_warning_def)
qed

theorem onetime_pop_witness:
  "(\<exists>ts'. processTag
       \<lparr>tags = Some [TObject (Some 1)], startsNode_prop = None, endsNode_prop = Some True,
        inlines = [], line_pageNodeRef = None\<rparr> 0 (TObject (Some 1))
       (initial_locals
         \<lparr>options_size = (595, 842), pages_added = [],
          stk = Some [\<lparr>ident = 0, data_S = ''Document''\<rparr>, \<lparr>ident = 1, data_S = ''Table''\<rparr>,
                      \<lparr>ident = 2, data_S = ''TR''\<rparr>],
          next_ident = 3, markings = [], calls = [], console = []\<rparr>) = Inr ts'
     \<and> stk (doc ts') = Some [\<lparr>ident = 0, data_S = ''Document''\<rparr>, \<lparr>ident = 1, data_S = ''Table''\<rparr>]
     \<and> closingsFifo ts' = [Some \<lparr>ident = 2, data_S = ''TR''\<rparr>]
     \<and> console (doc ts') = [])
   \<and> (\<exists>ts'. processTag
       \<lparr>tags = Some [TObject (Some 5)], startsNode_prop = None, endsNode_prop = Some True,
        inlines = [], line_pageNodeRef = None\<rparr> 0 (TObject (Some 5))
       (initial_locals
         \<lparr>options_size = (595, 842), pages_added = [],
          stk = Some [\<lparr>ident = 0, data_S = ''Document''\<rparr>, \<lparr>ident = 1, data_S = ''Table''\<rparr>,
                      \<lparr>ident = 2, data_S = ''TR''\<rparr>],
          next_ident = 3, markings = [], calls = [], console = []\<rparr>) = Inr ts'
     \<and> stk (doc ts') = Some [\<lparr>ident = 0, data_S = ''Document''\<rparr>]
     \<and> closingsFifo ts' = [Some \<lparr>ident = 2, data_S = ''TR''\<rparr>, Some \<lparr>ident = 1, data_S = ''Table''\<rparr>]
     \<and> console (doc ts') = [TriedToPopRoot])"
  using onetime_pop [of
      "\<lparr>tags = Some [TObject (Some 1)], startsNode_prop = None, endsNode_prop = Some True,
        inlines = [], line_pageNodeRef = None\<rparr>"
      "initial_locals
         \<lparr>options_size = (595, 842), pages_added = [],
          stk = Some [\<lparr>ident = 0, data_S = ''Document''\<rparr>, \<lparr>ident = 1, data_S = ''Table''\<rparr>,
                      \<lparr>ident = 2, data_S = ''TR''\<rparr>],
          next_ident = 3, markings = [], calls = [], console = []\<rparr>"
      "[\<lparr>ident = 0, data_S = ''Document''\<rparr>, \<lparr>ident = 1, data_S = ''Table''\<rparr>,
                      \<lparr>ident = 2, data_S = ''TR''\<rparr>]" 1 0]
    onetime_pop [of
      "\<lparr>tags = Some [TObject (Some 5)], startsNode_prop = None, endsNode_prop = Some True,
        inlines = [], line_pageNodeRef = None\<rparr>"
      "initial_locals
         \<lparr>options_size = (595, 842), pages_added = [],
          stk = Some [\<lparr>ident = 0, data_S = ''Document''\<rparr>, \<lparr>ident = 1, data_S = ''Table''\<rparr>,
                      \<lparr>ident = 2, data_S = ''TR''\<rparr>],
          next_ident = 3, markings = [], calls = [], console = []\<rparr>"
      "[\<lparr>ident = 0, data_S = ''Document''\<rparr>, \<lparr>ident = 1, data_S = ''Table''\<rparr>,
                      \<lparr>ident = 2, data_S = ''TR''\<rparr>]" 5 0]
  by (auto simp add: endsNode_def initial_locals_def)

text \<open>
  C3. On a line with \<^verbatim>\<open>endsNode\<close>, the close tag \<^verbatim>\<open>"/name"\<close> where \<open>name\<close> is not the name
  of the top of the stack pops nothing: the stack and the FIFO stay, and exactly one
  warning is logged.
\<close>

theorem close_tag_mismatch:
  assumes "endsNode line" and "stk (doc ts) = Some (s @ [top_el])" and "data_S top_el \<noteq> name"
  shows "\<exists>ts'. processTag line itag (TString (CHR ''/'' # name)) ts = Inr ts'
     \<and> stk (doc ts') = stk (doc ts) \<and> closingsFifo ts' = closingsFifo ts
     \<and> popped ts' = popped ts
     \<and> console (doc ts') = console (doc ts) @ [IgnoringClose (CHR ''/'' # name) (data_S top_el)]"
  using assms by (simp add: processTag_def processString_def topElement_def log_warning_def)

theorem close_tag_mismatch_witness:
  "\<exists>ts'. processTag
       \<lparr>tags = Some [TString ''/TD''], startsNode_prop = None, endsNode_prop = Some False,
        inlines = [], line_pageNodeRef = None\<rparr> 0 (TString ''/TD'')
       (initial_locals
         \<lparr>options_size = (595, 842), pages_added = [],
          stk = Some [\<lparr>ident = 0, data_S = ''Document''\<rparr>, \<lparr>ident = 1, data_S = ''TR''\<rparr>],
          next_ident = 2, markings = [], calls = [], console = []\<rparr>) = Inr ts'
     \<and> stk (doc ts') = Some [\<lparr>ident = 0, data_S = ''Document''\<rparr>, \<lparr>ident = 1, data_S = ''TR''\<rparr>]
     \<and> closingsFifo ts' = [] \<and> popped ts' = []
     \<and> console (doc ts') = [IgnoringClose ''/TD'' ''TR'']"
  using close_tag_mismatch [of
      "\<lparr>tags = Some [TString ''/TD''], startsNode_prop = None, endsNode_prop = Some False,
        inlines = [], line_pageNodeRef = None\<rparr>"
      "initial_locals
         \<lparr>options_size = (595, 842), pages_added = [],
          stk = Some [\<lparr>ident = 0, data_S = ''Document''\<rparr>, \<lparr>ident = 1, data_S = ''TR''\<rparr>],
          next_ident = 2, markings = [], calls = [], console = []\<rparr>"
      "[\<lparr>ident = 0, data_S = ''Document''\<rparr>]" "\<lparr>ident = 1, data_S = ''TR''\<rparr>" "''TD''" 0]
  by (simp add: endsNode_def initial_locals_def)

subsection \<open>The structure-tag engine: a line\<close>

lemma ended_append: "ended (xs @ ys) = ended xs @ ended ys"
  by (induction xs rule: ended.induct) simp_all



lemma closeTop_ok:
  "closeTop ts = Inr ts' \<Longrightarrow> stk (doc ts) = Some (s @ [x]) \<Longrightarrow> fifo_ok ts \<Longrightarrow> fifo_ok ts'"
  by (auto simp: closeTop_def topElement_def fifo_ok_def)







lemma endAll_frame:
  "endAll fifo d = Inr d' \<Longrightarrow> stk d' = stk d \<and> options_size d' = options_size d \<and> pages_added d' = pages_added d"
  by (induction fifo d rule: endAll.induct) (auto simp: backend_call_def)



lemma kept_refl: "kept d d" by (simp add: kept_def)
lemma kept_trans: "kept d d1 \<Longrightarrow> kept d1 d2 \<Longrightarrow> kept d d2" by (simp add: kept_def)

lemma closeTop_kept: "closeTop ts = Inr ts' \<Longrightarrow> kept (doc ts) (doc ts')"
  by (auto simp: closeTop_def kept_def split: sum.splits)

lemma popLoop_kept: "popLoop j pops ts = Inr ts' \<Longrightarrow> kept (doc ts) (doc ts')"
proof (induction j pops ts rule: popLoop.induct)
  case (1 j pops ts)
  show ?case
  proof (cases "j < pops")
    case True
    with "1.prems" obtain ts1 where ct: "closeTop ts = Inr ts1"
      and run: "popLoop (j + 1) pops ts1 = Inr ts'"
      by (auto simp: popLoop.simps [of j pops ts] split: sum.splits)
    from "1.IH" [OF True ct run] closeTop_kept [OF ct] show ?thesis
      by (rule kept_trans [rotated])
  next
    case False
    with "1.prems" show ?thesis by (simp add: popLoop.simps [of j pops ts] kept_refl)
  qed
qed

lemma processObject_kept: "processObject line itag ot ts = Inr ts' \<Longrightarrow> kept (doc ts) (doc ts')"
  by (auto simp: processObject_def Let_def log_warning_def kept_def
      split: if_splits option.splits dest!: popLoop_kept)

lemma processString_kept: "processString line tag ts = Inr ts' \<Longrightarrow> kept (doc ts) (doc ts')"
  by (auto simp: processString_def topElement_def closeTop_def log_warning_def
      openTag_def struct_def backend_call_def Let_def kept_def ended_append
      split: option.splits if_splits sum.splits)

lemma processTag_kept: "processTag line itag tag ts = Inr ts' \<Longrightarrow> kept (doc ts) (doc ts')"
  by (cases tag)
     (auto simp: processTag_def log_warning_def kept_refl split: if_splits
       intro: processString_kept processObject_kept, auto simp: kept_def)

lemma tagLoop_kept: "tagLoop line tg itag ts = Inr ts' \<Longrightarrow> kept (doc ts) (doc ts')"
proof (induction tg arbitrary: itag ts)
  case Nil
  then show ?case by (simp add: kept_refl)
next
  case (Cons t tg)
  then obtain ts1 where st: "processTag line itag t ts = Inr ts1"
    and run: "tagLoop line tg (Suc itag) ts1 = Inr ts'"
    by (auto split: sum.splits)
  from processTag_kept [OF st] Cons.IH [OF run] show ?case by (rule kept_trans)
qed

lemma createRoot_kept: "kept d (createRoot d)"
  by (auto simp: createRoot_def struct_def backend_call_def kept_def ended_append split: option.splits)

lemma processTags_kept:
  assumes "processTags line d = Inr (line', ts)"
  shows "kept d (doc ts)"
proof (cases "\<exists>tg. tags line = Some tg \<and> tg \<noteq> [] \<and> (startsNode line \<or> endsNode line)")
  case True
  then obtain tg where tg: "tags line = Some tg" "tg \<noteq> []" "startsNode line \<or> endsNode line"
    by blast
  with assms have "tagLoop line tg 0 (initial_locals (createRoot d)) = Inr ts"
    by (auto simp: processTags_def split: sum.splits)
  from tagLoop_kept [OF this] have "kept (createRoot d) (doc ts)" by (simp add: initial_locals_def)
  with createRoot_kept show ?thesis by (rule kept_trans)
next
  case False
  with assms have "ts = initial_locals d"
    by (auto simp: processTags_def split: option.splits if_splits)
  then show ?thesis by (simp add: initial_locals_def kept_refl)
qed


subsection \<open>The flags of a line\<close>














subsection \<open>Page orientation\<close>

lemma openContent_pages:
  "openContent line ts = (sc, d1) \<Longrightarrow>
     options_size d1 = options_size (doc ts) \<and> pages_added d1 = pages_added (doc ts)
     \<and> stk d1 = stk (doc ts) \<and> ended (calls d1) = ended (calls (doc ts))"
  by (auto simp: openContent_def markStructureContent_def Let_def ended_append
      split: if_splits option.splits)

lemma closeNode_pages:
  "closeNode ts sc d1 = Inr d3 \<Longrightarrow>
     options_size d3 = options_size d1 \<and> pages_added d3 = pages_added d1 \<and> stk d3 = stk d1"
  by (auto simp: closeNode_def Let_def endMarkedContent_def backend_call_def
      split: option.splits dest!: endAll_frame)

lemma renderLine_pages:
  assumes "renderLine W line d = Inr (line', d')"
  shows "options_size d' = options_size d \<and> pages_added d' = pages_added d"
proof -
  from assms obtain line1 line2 ts sc d1 where
    tg: "processTags line1 d = Inr (line2, ts)" and oc: "openContent line2 ts = (sc, d1)"
    and fin: "d' = d1 \<or> closeNode ts sc d1 = Inr d'"
    by (auto simp: renderLine_def Let_def split: sum.splits prod.splits if_splits)
  from processTags_kept [OF tg] openContent_pages [OF oc] fin closeNode_pages [of ts sc d1 d']
  show ?thesis by (auto simp: kept_def)
qed

lemma renderItems_pages:
  "renderItems W its d = Inr d' \<Longrightarrow>
     options_size d' = options_size d \<and> pages_added d' = pages_added d"
proof (induction its arbitrary: d)
  case Nil
  then show ?case by simp
next
  case (Cons it its)
  then obtain d1 where one: "renderItem W it d = Inr d1" and run: "renderItems W its d1 = Inr d'"
    by (auto split: sum.splits)
  from one have "options_size d1 = options_size d \<and> pages_added d1 = pages_added d"
    by (auto simp: renderItem_def split: if_splits option.splits sum.splits dest: renderLine_pages)
  with Cons.IH [OF run] show ?case by simp
qed

lemma update_size:
  "options_size (updatePageOrientationInOptions p d) = oriented p (options_size d)
   \<and> pages_added (updatePageOrientationInOptions p d) = pages_added d"
  by (simp add: updatePageOrientationInOptions_def orientation_of_def oriented_def Let_def)

lemma renderPagesFrom_added:
  "renderPagesFrom W i pages d = Inr d' \<Longrightarrow> 0 < i \<Longrightarrow>
   \<exists>added. pages_added d' = pages_added d @ added \<and> length added = length pages
     \<and> (\<forall>k<length pages. added ! k = oriented (pages ! k) ((options_size d # added) ! k))"
proof (induction pages arbitrary: i d)
  case Nil
  then show ?case by simp
next
  case (Cons p rest)
  let ?d1 = "addPage (updatePageOrientationInOptions p d)"
  let ?sz = "oriented p (options_size d)"
  from Cons.prems obtain d2 where its: "renderItems W (items p) ?d1 = Inr d2"
    and run: "renderPagesFrom W (Suc i) rest d2 = Inr d'"
    by (auto split: sum.splits)
  have d1: "options_size ?d1 = ?sz" "pages_added ?d1 = pages_added d @ [?sz]"
    by (simp_all add: addPage_def update_size)
  from renderItems_pages [OF its] d1
  have d2: "options_size d2 = ?sz" "pages_added d2 = pages_added d @ [?sz]" by simp_all
  from Cons.IH [OF run] obtain added where
    a: "pages_added d' = pages_added d2 @ added" "length added = length rest"
    and b: "\<forall>k<length rest. added ! k = oriented (rest ! k) ((options_size d2 # added) ! k)"
    by auto
  have "\<forall>k<length (p # rest). (?sz # added) ! k =
          oriented ((p # rest) ! k) ((options_size d # ?sz # added) ! k)"
  proof (intro allI impI)
    fix k assume "k < length (p # rest)"
    then show "(?sz # added) ! k = oriented ((p # rest) ! k) ((options_size d # ?sz # added) ! k)"
      using b d2 by (cases k) simp_all
  qed
  with a d2 show ?case by (intro exI [of _ "?sz # added"]) simp
qed


text \<open>
  C8. When \<^verbatim>\<open>renderPages\<close> returns, it has added one page for the first page of the
  list (or for the empty list) with the size the backend had, and one page for every
  later page \<open>i\<close>, whose size is the size of the page added before it, with width and
  height swapped exactly when the orientation of page \<open>i\<close> differs from the orientation
  of that size (landscape when the width is larger than the height, portrait otherwise).
  So when page \<open>i\<close> differs and page \<open>i + 1\<close> has the orientation of the size before
  page \<open>i\<close>, the size of page \<open>i + 1\<close> is that earlier size again.
\<close>

theorem orientation_swap:
  assumes "renderPages W pages d = Inr d'"
  shows "\<exists>added. pages_added d' = pages_added d @ added
     \<and> length added = max 1 (length pages)
     \<and> added ! 0 = options_size d
     \<and> (\<forall>i. 0 < i \<and> i < length pages \<longrightarrow>
          added ! i =
            (if orientation (pages ! i) = orientation_of (added ! (i - 1)) then added ! (i - 1)
             else (snd (added ! (i - 1)), fst (added ! (i - 1)))))
     \<and> (\<forall>i. 0 < i \<and> Suc i < length pages
            \<and> orientation (pages ! i) \<noteq> orientation_of (added ! (i - 1))
            \<and> orientation (pages ! Suc i) = orientation_of (added ! (i - 1)) \<longrightarrow>
          added ! Suc i = added ! (i - 1))"
proof -
  have "\<exists>added. pages_added d' = pages_added d @ added
     \<and> length added = max 1 (length pages)
     \<and> added ! 0 = options_size d
     \<and> (\<forall>i. 0 < i \<and> i < length pages \<longrightarrow> added ! i = oriented (pages ! i) (added ! (i - 1)))"
  proof (cases pages)
    case Nil
    with assms have "pages_added d' = pages_added d @ [options_size d]"
      by (auto simp: renderPages_def addPage_def)
    with Nil show ?thesis by (intro exI [of _ "[options_size d]"]) simp
  next
    case (Cons p rest)
    with assms obtain d2 where its: "renderItems W (items p) (addPage d) = Inr d2"
      and run: "renderPagesFrom W (Suc 0) rest d2 = Inr d'"
      by (auto simp: renderPages_def split: sum.splits)
    from renderItems_pages [OF its]
    have d2: "options_size d2 = options_size d" "pages_added d2 = pages_added d @ [options_size d]"
      by (simp_all add: addPage_def)
    from renderPagesFrom_added [OF run] obtain added where
      a: "pages_added d' = pages_added d2 @ added" "length added = length rest"
      and b: "\<forall>k<length rest. added ! k = oriented (rest ! k) ((options_size d2 # added) ! k)"
      by auto
    have "\<forall>i. 0 < i \<and> i < length pages \<longrightarrow>
        (options_size d # added) ! i = oriented (pages ! i) ((options_size d # added) ! (i - 1))"
    proof (intro allI impI)
      fix i assume "0 < i \<and> i < length pages"
      then obtain k where "i = Suc k" "k < length rest" using Cons by (cases i) auto
      with b d2 Cons
      show "(options_size d # added) ! i = oriented (pages ! i) ((options_size d # added) ! (i - 1))"
        by simp
    qed
    with a d2 Cons show ?thesis by (intro exI [of _ "options_size d # added"]) simp
  qed
  then obtain added where a: "pages_added d' = pages_added d @ added"
      "length added = max 1 (length pages)" "added ! 0 = options_size d"
    and b: "\<forall>i. 0 < i \<and> i < length pages \<longrightarrow> added ! i = oriented (pages ! i) (added ! (i - 1))"
    by blast
  have returns: "added ! Suc i = added ! (i - 1)"
    if "0 < i" "Suc i < length pages"
      "orientation (pages ! i) \<noteq> orientation_of (added ! (i - 1))"
      "orientation (pages ! Suc i) = orientation_of (added ! (i - 1))" for i
  proof -
    obtain w h where wh: "added ! (i - 1) = (w, h)" by (cases "added ! (i - 1)")
    from b that have "added ! i = oriented (pages ! i) (added ! (i - 1))" by simp
    with that wh have i: "added ! i = (h, w)" by (simp add: oriented_def)
    from b that have "added ! Suc i = oriented (pages ! Suc i) (added ! i)" by simp
    with that wh i show ?thesis
      by (auto simp: oriented_def orientation_of_def split: if_splits)
  qed
  from a b returns show ?thesis
    by (intro exI [of _ added]) (simp add: oriented_def)
qed

theorem orientation_swap_witness:
  "renderPages (\<lambda>t f s c ff. 0)
       [\<lparr>items = [], orientation = ''landscape''\<rparr>, \<lparr>items = [], orientation = ''portrait''\<rparr>,
        \<lparr>items = [], orientation = ''landscape''\<rparr>]
       \<lparr>options_size = (842, 595), pages_added = [], stk = None, next_ident = 0,
        markings = [], calls = [], console = []\<rparr> =
     Inr \<lparr>options_size = (842, 595), pages_added = [(842, 595), (595, 842), (842, 595)],
          stk = None, next_ident = 0, markings = [], calls = [], console = []\<rparr>
   \<and> (\<exists>added. [(842, 595), (595, 842), (842, 595)] = added \<and> length added = 3
        \<and> added ! 0 = (842, 595)
        \<and> added ! 1 = (snd (added ! 0), fst (added ! 0))
        \<and> added ! 2 = added ! 0)"
proof -
  let ?W = "(\<lambda>t f s c ff. 0) :: measure_fun"
  let ?P = "[\<lparr>items = [], orientation = ''landscape''\<rparr>, \<lparr>items = [], orientation = ''portrait''\<rparr>,
        \<lparr>items = [], orientation = ''landscape''\<rparr>]"
  let ?D = "\<lparr>options_size = (842, 595), pages_added = [], stk = None, next_ident = 0,
        markings = [], calls = [], console = []\<rparr>"
  let ?D' = "\<lparr>options_size = (842, 595), pages_added = [(842, 595), (595, 842), (842, 595)],
          stk = None, next_ident = 0, markings = [], calls = [], console = []\<rparr>"
  have r: "renderPages ?W ?P ?D = Inr ?D'"
    by (simp add: renderPages_def addPage_def updatePageOrientationInOptions_def)
  from orientation_swap [OF r] obtain added where
    a: "pages_added ?D' = pages_added ?D @ added" "length added = max 1 (length ?P)"
      "added ! 0 = options_size ?D"
    and b: "\<forall>i. 0 < i \<and> i < length ?P \<longrightarrow>
          added ! i =
            (if orientation (?P ! i) = orientation_of (added ! (i - 1)) then added ! (i - 1)
             else (snd (added ! (i - 1)), fst (added ! (i - 1))))"
    and c: "\<forall>i. 0 < i \<and> Suc i < length ?P
            \<and> orientation (?P ! i) \<noteq> orientation_of (added ! (i - 1))
            \<and> orientation (?P ! Suc i) = orientation_of (added ! (i - 1)) \<longrightarrow>
          added ! Suc i = added ! (i - 1)"
    by blast
  from a have ad: "added = [(842, 595), (595, 842), (842, 595)]" by simp
  from b [rule_format, of 1] have 1: "added ! 1 = (snd (added ! 0), fst (added ! 0))"
    by (simp add: ad orientation_of_def)
  from c [rule_format, of 1] have 2: "added ! 2 = added ! 0"
    by (simp add: ad orientation_of_def)
  from ad 1 2 r show ?thesis by simp
qed

subsection \<open>The order of closing\<close>









subsection \<open>Where the engine leaves the specification\<close>

text \<open>
  C1. The close tag \<^verbatim>\<open>'/Document'\<close> on the first tagged line of a pass, a line with
  \<^verbatim>\<open>endsNode\<close>: the root is created, its name \<^verbatim>\<open>Document\<close> matches the tag, and the closing
  branch pops it and ends it; the stack is empty after the line. The next line with a
  string tag then fails with a TypeError, reading the name of the top of an empty stack.
  Only the onetime pop is clamped so that the root stays on the stack.
\<close>

theorem root_popped_by_close_tag:
  "renderLine widthOfString
     \<lparr>tags = Some [TString ''/Document''], startsNode_prop = None, endsNode_prop = Some True,
      inlines = [], line_pageNodeRef = None\<rparr>
     \<lparr>options_size = (595, 842), pages_added = [], stk = None, next_ident = 0,
      markings = [], calls = [], console = []\<rparr> =
   Inr (\<lparr>tags = Some [TString ''/Document''], startsNode_prop = None, endsNode_prop = Some True,
         inlines = [], line_pageNodeRef = None\<rparr>,
        \<lparr>options_size = (595, 842), pages_added = [], stk = Some [], next_ident = 1,
         markings = [],
         calls = [AddStructure \<lparr>ident = 0, data_S = ''Document''\<rparr>,
                  End \<lparr>ident = 0, data_S = ''Document''\<rparr>],
         console = []\<rparr>)
   \<and> renderLine widthOfString
     \<lparr>tags = Some [TString ''P''], startsNode_prop = Some True, endsNode_prop = None,
      inlines = [], line_pageNodeRef = None\<rparr>
     \<lparr>options_size = (595, 842), pages_added = [], stk = Some [], next_ident = 1,
         markings = [],
         calls = [AddStructure \<lparr>ident = 0, data_S = ''Document''\<rparr>,
                  End \<lparr>ident = 0, data_S = ''Document''\<rparr>],
         console = []\<rparr> = Inl TypeError"
  by (simp add: engine_defs del: not_None_eq)

lemma processObject_root:
  assumes "processObject line itag ot ts = Inr ts'" and "stk (doc ts) = Some (root_el # rest)"
  shows "\<exists>rest'. stk (doc ts') = Some (root_el # rest')"
proof (cases "endsNode line")
  case False
  with assms show ?thesis by (simp add: processObject_def)
next
  case True
  define pops where "pops = (case ot of None \<Rightarrow> 0 | Some n \<Rightarrow> if n = 0 then 0 else n)"
  define n where "n = (if pops > int (length rest) then int (length rest) else pops)"
  define ts1 where "ts1 = (if pops > int (length rest)
    then log_warning TriedToPopRoot (ts\<lparr>lifo := itag # lifo ts\<rparr>) else ts\<lparr>lifo := itag # lifo ts\<rparr>)"
  have run: "popLoop 0 n ts1 = Inr ts'"
    using assms True
    by (simp add: processObject_def pops_def n_def ts1_def Let_def split: if_splits)
  have s1: "stk (doc ts1) = Some (root_el # rest)"
    using assms by (simp add: ts1_def log_warning_def)
  have le: "n \<le> int (length rest)" by (simp add: n_def)
  show ?thesis
  proof (cases "n \<le> 0")
    case True
    with run s1 show ?thesis by (simp add: popLoop_none)
  next
    case False
    let ?k = "length rest - nat n"
    have "stk (doc ts1) = Some ((root_el # take ?k rest) @ rev (rev (drop ?k rest)))"
      using s1 by simp
    moreover have "int (length (rev (drop ?k rest))) = n - 0" using False le by simp
    ultimately have "popLoop 0 n ts1 =
      Inr (ts1\<lparr>closingsFifo := closingsFifo ts1 @ map Some (rev (drop ?k rest)),
                popped := popped ts1 @ map Some (rev (drop ?k rest)),
                doc := (doc ts1)\<lparr>stk := Some (root_el # take ?k rest)\<rparr>\<rparr>)"
      by (rule popLoop_rev)
    with run show ?thesis by auto
  qed
qed

lemma processString_root:
  assumes "processString line str ts = Inr ts'" and "stk (doc ts) = Some (root_el # rest)"
    and "\<not> (rest = [] \<and> endsNode line \<and> str = CHR ''/'' # data_S root_el)"
  shows "\<exists>rest'. stk (doc ts') = Some (root_el # rest')"
proof (cases "rest = []")
  case True
  with assms show ?thesis
    by (cases str)
       (auto simp: processString_def topElement_def closeTop_def log_warning_def openTag_def
          struct_def backend_call_def Let_def split: if_splits sum.splits)
next
  case False
  with assms show ?thesis
    by (auto simp: processString_def topElement_def closeTop_def log_warning_def openTag_def
          struct_def backend_call_def Let_def split: if_splits sum.splits)
qed

text \<open>
  Every other tag keeps the root: a tag that is processed without an error leaves the
  bottom element of the stack in place, unless it is the close tag with the root's own
  name on a line with \<^verbatim>\<open>endsNode\<close> while the root is alone on the stack.
\<close>

theorem root_kept_by_other_tags:
  assumes "stk (doc ts) = Some (root_el # rest)" and "processTag line itag tag ts = Inr ts'"
    and "\<not> (rest = [] \<and> endsNode line \<and> tag = TString (CHR ''/'' # data_S root_el))"
  shows "\<exists>rest'. stk (doc ts') = Some (root_el # rest')"
proof (cases tag)
  case (TString str)
  with assms show ?thesis by (auto simp: processTag_def intro: processString_root)
next
  case (TObject ot)
  with assms show ?thesis by (auto simp: processTag_def intro: processObject_root)
next
  case TNull
  with assms show ?thesis by (auto simp: processTag_def split: if_splits)
next
  case TUndefined
  with assms show ?thesis by (simp add: processTag_def)
next
  case (TNumber r)
  with assms show ?thesis by (auto simp: processTag_def log_warning_def)
next
  case (TBoolean b)
  with assms show ?thesis by (auto simp: processTag_def log_warning_def)
qed

theorem root_kept_by_other_tags_witness:
  "\<exists>rest'. stk (doc (log_warning IgnoringObject (initial_locals
       \<lparr>options_size = (595, 842), pages_added = [],
        stk = Some [\<lparr>ident = 0, data_S = ''Document''\<rparr>],
        next_ident = 1, markings = [], calls = [], console = []\<rparr>))) =
     Some (\<lparr>ident = 0, data_S = ''Document''\<rparr> # rest')"
  using root_kept_by_other_tags [of
      "initial_locals \<lparr>options_size = (595, 842), pages_added = [],
        stk = Some [\<lparr>ident = 0, data_S = ''Document''\<rparr>],
        next_ident = 1, markings = [], calls = [], console = []\<rparr>"
      "\<lparr>ident = 0, data_S = ''Document''\<rparr>" "[]"
      "\<lparr>tags = Some [TNumber 3], startsNode_prop = None, endsNode_prop = Some True,
        inlines = [], line_pageNodeRef = None\<rparr>" 0 "TNumber 3"
      "log_warning IgnoringObject (initial_locals
       \<lparr>options_size = (595, 842), pages_added = [],
        stk = Some [\<lparr>ident = 0, data_S = ''Document''\<rparr>],
        next_ident = 1, markings = [], calls = [], console = []\<rparr>)"]
  by (simp add: processTag_def initial_locals_def)

text \<open>
  C5. A tag that is neither a string nor an object with a count is not always ignored
  with a warning. The tag \<^verbatim>\<open>null\<close> has the \<^verbatim>\<open>typeof\<close> \<^verbatim>\<open>'object'\<close>: on every line with
  \<^verbatim>\<open>endsNode\<close> it takes the branch of the onetime pops and raises a TypeError at
  \<^verbatim>\<open>tagitem.onetime\<close>. The tag \<^verbatim>\<open>undefined\<close> takes the default branch and raises a
  TypeError at \<^verbatim>\<open>tagitem.toString()\<close>. The error ends the loop over the tags,
  \<^verbatim>\<open>renderLine\<close> and \<^verbatim>\<open>renderPages\<close>: no warning is logged and the pass is aborted.
\<close>

theorem null_tag_aborts:
  "processTag (line\<lparr>endsNode_prop := Some b\<rparr>) itag TNull ts = Inl TypeError
   \<and> processTag line itag TUndefined ts = Inl TypeError
   \<and> tagLoop (line\<lparr>endsNode_prop := Some b\<rparr>) (TNull # tg) itag ts = Inl TypeError
   \<and> tagLoop line (TUndefined # tg) itag ts = Inl TypeError
   \<and> renderLine widthOfString
     \<lparr>tags = Some [TNull], startsNode_prop = None, endsNode_prop = Some True,
      inlines = [], line_pageNodeRef = None\<rparr>
     \<lparr>options_size = (595, 842), pages_added = [], stk = None, next_ident = 0,
      markings = [], calls = [], console = []\<rparr> = Inl TypeError
   \<and> renderLine widthOfString
     \<lparr>tags = Some [TUndefined], startsNode_prop = Some True, endsNode_prop = None,
      inlines = [], line_pageNodeRef = None\<rparr>
     \<lparr>options_size = (595, 842), pages_added = [], stk = None, next_ident = 0,
      markings = [], calls = [], console = []\<rparr> = Inl TypeError
   \<and> renderPages widthOfString
     [\<lparr>items = [\<lparr>item_type = ''line'', item_y = Some 0, getHeight = Some 12,
                  u_height = None, item_y1 = None, item_y2 = None,
                  item_line = Some \<lparr>tags = Some [TNull], startsNode_prop = None,
                     endsNode_prop = Some True, inlines = [], line_pageNodeRef = None\<rparr>\<rparr>],
       orientation = ''portrait''\<rparr>]
     \<lparr>options_size = (595, 842), pages_added = [], stk = None, next_ident = 0,
      markings = [], calls = [], console = []\<rparr> = Inl TypeError"
  by (simp add: engine_defs renderPages_def renderItem_def addPage_def del: not_None_eq)

text \<open>
  What the engine does with the other tags of this kind. A number or a boolean is
  ignored with exactly one warning: the stack and the FIFO stay, and the loop goes on
  with the next tag. An object without \<^verbatim>\<open>onetime\<close> (\<^verbatim>\<open>{}\<close>, an array) gets no warning
  on a line with \<^verbatim>\<open>endsNode\<close> and a stack that is not empty: it counts as a onetime pop
  of nothing, and its index is noted in \<^verbatim>\<open>lifo\<close>. On a line without \<^verbatim>\<open>endsNode\<close> an object,
  and \<^verbatim>\<open>null\<close>, is passed over.
\<close>

theorem malformed_tag:
  "processTag line itag (TNumber n) ts = Inr (log_warning IgnoringObject ts)
   \<and> processTag line itag (TBoolean b) ts = Inr (log_warning IgnoringObject ts)
   \<and> stk (doc (log_warning IgnoringObject ts)) = stk (doc ts)
   \<and> closingsFifo (log_warning IgnoringObject ts) = closingsFifo ts
   \<and> console (doc (log_warning IgnoringObject ts)) = console (doc ts) @ [IgnoringObject]
   \<and> tagLoop line (TNumber n # tg) itag ts =
       tagLoop line tg (Suc itag) (log_warning IgnoringObject ts)
   \<and> tagLoop line (TBoolean b # tg) itag ts =
       tagLoop line tg (Suc itag) (log_warning IgnoringObject ts)
   \<and> (endsNode line \<and> stk (doc ts) = Some (r # rest) \<longrightarrow>
        processTag line itag (TObject None) ts = Inr (ts\<lparr>lifo := itag # lifo ts\<rparr>))
   \<and> (\<not> endsNode line \<longrightarrow>
        processTag line itag (TObject onetime) ts = Inr ts
        \<and> processTag line itag TNull ts = Inr ts)"
  by (simp add: processTag_def processObject_def log_warning_def popLoop_none)

theorem malformed_tag_witness:
  "processTag
     \<lparr>tags = Some [TObject None], startsNode_prop = None, endsNode_prop = Some True,
      inlines = [], line_pageNodeRef = None\<rparr> 0 (TObject None)
     (initial_locals \<lparr>options_size = (595, 842), pages_added = [],
        stk = Some [\<lparr>ident = 0, data_S = ''Document''\<rparr>],
        next_ident = 1, markings = [], calls = [], console = []\<rparr>) =
   Inr ((initial_locals \<lparr>options_size = (595, 842), pages_added = [],
        stk = Some [\<lparr>ident = 0, data_S = ''Document''\<rparr>],
        next_ident = 1, markings = [], calls = [], console = []\<rparr>)\<lparr>lifo := [0]\<rparr>)
   \<and> processTag
     \<lparr>tags = Some [TNull], startsNode_prop = Some True, endsNode_prop = None,
      inlines = [], line_pageNodeRef = None\<rparr> 0 TNull
     (initial_locals \<lparr>options_size = (595, 842), pages_added = [],
        stk = Some [\<lparr>ident = 0, data_S = ''Document''\<rparr>],
        next_ident = 1, markings = [], calls = [], console = []\<rparr>) =
   Inr (initial_locals \<lparr>options_size = (595, 842), pages_added = [],
        stk = Some [\<lparr>ident = 0, data_S = ''Document''\<rparr>],
        next_ident = 1, markings = [], calls = [], console = []\<rparr>)"
  using malformed_tag [of
      "\<lparr>tags = Some [TObject None], startsNode_prop = None, endsNode_prop = Some True,
        inlines = [], line_pageNodeRef = None\<rparr>" 0 0
      "initial_locals \<lparr>options_size = (595, 842), pages_added = [],
        stk = Some [\<lparr>ident = 0, data_S = ''Document''\<rparr>],
        next_ident = 1, markings = [], calls = [], console = []\<rparr>"
      True "[]" "\<lparr>ident = 0, data_S = ''Document''\<rparr>" "[]" None]
    malformed_tag [of
      "\<lparr>tags = Some [TNull], startsNode_prop = Some True, endsNode_prop = None,
        inlines = [], line_pageNodeRef = None\<rparr>" 0 0
      "initial_locals \<lparr>options_size = (595, 842), pages_added = [],
        stk = Some [\<lparr>ident = 0, data_S = ''Document''\<rparr>],
        next_ident = 1, markings = [], calls = [], console = []\<rparr>"
      True "[]" "\<lparr>ident = 0, data_S = ''Document''\<rparr>" "[]" None]
  by (simp add: endsNode_def initial_locals_def)

text \<open>
  For example the tag \<^verbatim>\<open>{}\<close> alone on the first tagged line, a line with \<^verbatim>\<open>endsNode\<close>:
  no warning is logged, and the tag is removed from the tags of the line.
\<close>

theorem object_tag_without_warning:
  "renderLine (\<lambda>t f s c ff. 0)
     \<lparr>tags = Some [TObject None], startsNode_prop = None, endsNode_prop = Some True,
      inlines = [], line_pageNodeRef = None\<rparr>
     \<lparr>options_size = (595, 842), pages_added = [], stk = None, next_ident = 0,
      markings = [], calls = [], console = []\<rparr> =
     Inr (\<lparr>tags = Some [], startsNode_prop = None, endsNode_prop = Some True,
           inlines = [], line_pageNodeRef = None\<rparr>,
          \<lparr>options_size = (595, 842), pages_added = [],
           stk = Some [\<lparr>ident = 0, data_S = ''Document''\<rparr>], next_ident = 1,
           markings = [], calls = [AddStructure \<lparr>ident = 0, data_S = ''Document''\<rparr>],
           console = []\<rparr>)"
  by (simp add: engine_defs popLoop.simps del: not_None_eq)

subsection \<open>The height of an auto-height page\<close>

text \<open>
  C7. With the page margins 0, which \<^verbatim>\<open>fixPageMargins\<close> and the caller
  \<^verbatim>\<open>createPdfKitDocument\<close> keep as 0, \<^verbatim>\<open>calculatePageHeight\<close> reads \<^verbatim>\<open>margins || 40\<close> and
  works with margins of 40: one item at y 100 with height 50 gives the height 190, not
  150.
\<close>

theorem auto_height_zero_margins:
  "calculatePageHeight
     [\<lparr>items = [\<lparr>item_type = ''image'', item_y = Some 100, getHeight = None,
                  u_height = Some 50, item_y1 = None, item_y2 = None, item_line = None\<rparr>],
       orientation = ''portrait''\<rparr>] (MNumber 0) = Inr (Some 190)
   \<and> fixPageMargins (MNumber 0) =
       Inr (MObject \<lparr>left_m = 0, top_m = 0, right_m = 0, bottom_m = 0\<rparr>)"
  by (simp add: calculatePageHeight_def fixPageMargins_def scanItem_def getBottomPosition_def
      getItemHeight_def)

lemma fold_scanItem:
  "fold scanItem its h = fold max (List.map_filter getBottomPosition its) h"
  by (induction its arbitrary: h) (auto simp: scanItem_def List.map_filter_simps max_def split: option.splits)

lemma fold_pages:
  "fold (\<lambda>page height. fold scanItem (items page) height) pages h = fold max (bottoms pages) h"
  by (induction pages arbitrary: h) (simp_all add: bottoms_def fold_scanItem)

text \<open>
  For every other margin value the height is the largest of the top margin and the
  bottom positions of the items, plus the bottom margin; the items of the
  specification's example, with margins of 40, give 360.
\<close>

theorem calculatePageHeight_max:
  assumes "margins \<noteq> MNumber 0" and "fixPageMargins margins = Inr (MObject fixedMargins)"
  shows "calculatePageHeight pages margins =
     Inr (Some (Max (set (top_m fixedMargins # bottoms pages)) + bottom_m fixedMargins))"
proof -
  from assms(2) have "margins \<noteq> MString []" by (auto simp: fixPageMargins_def)
  with assms show ?thesis
    by (simp add: calculatePageHeight_def fold_pages Max.set_eq_fold [symmetric])
qed

theorem calculatePageHeight_max_witness:
  "calculatePageHeight
     [\<lparr>items = [\<lparr>item_type = ''image'', item_y = Some 100, getHeight = None,
                  u_height = Some 50, item_y1 = None, item_y2 = None, item_line = None\<rparr>,
                 \<lparr>item_type = ''image'', item_y = Some 300, getHeight = None,
                  u_height = Some 20, item_y1 = None, item_y2 = None, item_line = None\<rparr>,
                 \<lparr>item_type = ''image'', item_y = Some 10, getHeight = None,
                  u_height = Some 5, item_y1 = None, item_y2 = None, item_line = None\<rparr>],
       orientation = ''portrait''\<rparr>] (MNumber 40) = Inr (Some 360)"
  using calculatePageHeight_max [of "MNumber 40" "\<lparr>left_m = 40, top_m = 40, right_m = 40, bottom_m = 40\<rparr>"
     "[\<lparr>items = [\<lparr>item_type = ''image'', item_y = Some 100, getHeight = None,
                  u_height = Some 50, item_y1 = None, item_y2 = None, item_line = None\<rparr>,
                 \<lparr>item_type = ''image'', item_y = Some 300, getHeight = None,
                  u_height = Some 20, item_y1 = None, item_y2 = None, item_line = None\<rparr>,
                 \<lparr>item_type = ''image'', item_y = Some 10, getHeight = None,
                  u_height = Some 5, item_y1 = None, item_y2 = None, item_line = None\<rparr>],
       orientation = ''portrait''\<rparr>]"]
  by (simp add: fixPageMargins_def bottoms_def List.map_filter_simps getBottomPosition_def getItemHeight_def)

end
